theory Spec2Isabelle
  imports Main
begin

section \<open>Values of the language\<close>

text \<open>
  The program is a Node.js script. The values it handles are modelled as finite trees:
  \<open>undefined\<close>, \<open>null\<close>, booleans, numbers, strings, arrays, plain objects and
  callables.
  \<^item> \<open>Num n\<close> is the Number \<open>n\<close> for an integer \<open>n\<close> in the safe range; fractions,
    \<open>NaN\<close> and the infinities are outside the model, as are symbols and bigints.
  \<^item> \<open>Str s\<close> is a string; a \<open>char\<close> stands for one code unit below 256.
  \<^item> \<open>Obj kvs\<close> is a plain object whose prototype is \<open>Object.prototype\<close>; \<open>kvs\<close>
    lists its own data properties in the order the engine enumerates them.
  \<^item> \<open>Fun src outcome\<close> is a callable: \<open>src\<close> is its source text (what
    \<open>Function.prototype.toString\<close> gives) and \<open>outcome\<close> is what calling it does,
    either a thrown error or a returned value. A callable is deterministic and does not
    look at its receiver or its arguments.
\<close>

datatype js_error = TypeError | SyntaxError | Thrown string

datatype jsval =
    Undefined
  | Null
  | Bool bool
  | Num int
  | Str string
  | Arr "jsval list"
  | Obj "(string \<times> jsval) list"
  | Fun string "js_error + jsval"

fun typeof :: "jsval \<Rightarrow> string" where
  "typeof Undefined = ''undefined''"
| "typeof Null = ''object''"
| "typeof (Bool b) = ''boolean''"
| "typeof (Num n) = ''number''"
| "typeof (Str s) = ''string''"
| "typeof (Arr xs) = ''object''"
| "typeof (Obj kvs) = ''object''"
| "typeof (Fun src outcome) = ''function''"

fun Array_isArray :: "jsval \<Rightarrow> bool" where
  "Array_isArray (Arr xs) = True"
| "Array_isArray v = False"

text \<open>\<open>ToBoolean\<close>: the falsy values are \<open>undefined\<close>, \<open>null\<close>, \<open>false\<close>, \<open>0\<close> and
  the empty string.\<close>

fun ToBoolean :: "jsval \<Rightarrow> bool" where
  "ToBoolean Undefined = False"
| "ToBoolean Null = False"
| "ToBoolean (Bool b) = b"
| "ToBoolean (Num n) = (n \<noteq> 0)"
| "ToBoolean (Str s) = (s \<noteq> [])"
| "ToBoolean (Arr xs) = True"
| "ToBoolean (Obj kvs) = True"
| "ToBoolean (Fun src outcome) = True"

text \<open>The operator \<open>a || b\<close> on values already evaluated.\<close>

definition js_or :: "jsval \<Rightarrow> jsval \<Rightarrow> jsval" where
  "js_or a b = (if ToBoolean a then a else b)"

text \<open>A call \<open>f(...)\<close>: calling anything that is not callable throws a \<open>TypeError\<close>.\<close>

fun call :: "jsval \<Rightarrow> js_error + jsval" where
  "call (Fun src outcome) = outcome"
| "call v = Inl TypeError"

fun is_Object :: "jsval \<Rightarrow> bool" where
  "is_Object (Arr xs) = True"
| "is_Object (Obj kvs) = True"
| "is_Object (Fun src outcome) = True"
| "is_Object v = False"

subsection \<open>Numbers and strings\<close>

definition digit_char :: "nat \<Rightarrow> char" where
  "digit_char d = ''0123456789abcdef'' ! d"

fun nat_digits :: "nat \<Rightarrow> string" where
  "nat_digits n = (if n < 10 then [digit_char n] else nat_digits (n div 10) @ [digit_char (n mod 10)])"

definition Number_toString :: "int \<Rightarrow> string" where
  "Number_toString n = (if n < 0 then CHR ''-'' # nat_digits (nat (- n)) else nat_digits (nat n))"

fun join_with :: "string \<Rightarrow> string list \<Rightarrow> string" where
  "join_with sep [] = []"
| "join_with sep [s] = s"
| "join_with sep (s # t # ss) = s @ sep @ join_with sep (t # ss)"

subsection \<open>\<open>JSON.stringify\<close>\<close>

text \<open>\<open>QuoteJSONString\<close>: the quote, the backslash and the control characters are escaped.\<close>

definition quote_char :: "char \<Rightarrow> string" where
  "quote_char c =
     (if c = CHR 0x08 then [CHR 0x5C, CHR ''b'']
      else if c = CHR 0x09 then [CHR 0x5C, CHR ''t'']
      else if c = CHR 0x0A then [CHR 0x5C, CHR ''n'']
      else if c = CHR 0x0C then [CHR 0x5C, CHR ''f'']
      else if c = CHR 0x0D then [CHR 0x5C, CHR ''r'']
      else if c = CHR 0x22 then [CHR 0x5C, CHR 0x22]
      else if c = CHR 0x5C then [CHR 0x5C, CHR 0x5C]
      else if (of_char c :: nat) < 32
        then [CHR 0x5C, CHR ''u'', CHR ''0'', CHR ''0'',
              digit_char (of_char c div 16), digit_char (of_char c mod 16)]
      else [c])"

definition QuoteJSONString :: "string \<Rightarrow> string" where
  "QuoteJSONString s = [CHR 0x22] @ concat (map quote_char s) @ [CHR 0x22]"

text \<open>The own property \<open>toJSON\<close> of a plain object, when it is callable, is called and its
  result is serialized in place of the object (step 2 of \<open>SerializeJSONProperty\<close>).\<close>

fun toJSON_of :: "jsval \<Rightarrow> (js_error + jsval) option" where
  "toJSON_of (Obj kvs) =
     (case map_of kvs ''toJSON'' of Some (Fun src outcome) \<Rightarrow> Some outcome | _ \<Rightarrow> None)"
| "toJSON_of v = None"

text \<open>
  \<open>SerializeJSONProperty\<close> gives \<open>None\<close> for \<open>undefined\<close>: such a member is left out of an
  object and printed as \<open>null\<close> in an array. The values are finite trees, so the cycle check
  of the standard never fires.
\<close>

function (sequential)
  SerializeJSONProperty :: "jsval \<Rightarrow> js_error + string option" and
  SerializeJSONValue :: "jsval \<Rightarrow> js_error + string option" and
  SerializeJSONObject :: "(string \<times> jsval) list \<Rightarrow> js_error + string list" and
  SerializeJSONArray :: "jsval list \<Rightarrow> js_error + string list"
where
  "SerializeJSONProperty v =
     (case toJSON_of v of
        None \<Rightarrow> SerializeJSONValue v
      | Some (Inl e) \<Rightarrow> Inl e
      | Some (Inr r) \<Rightarrow> SerializeJSONValue r)"
| "SerializeJSONValue Null = Inr (Some ''null'')"
| "SerializeJSONValue (Bool b) = Inr (Some (if b then ''true'' else ''false''))"
| "SerializeJSONValue (Str s) = Inr (Some (QuoteJSONString s))"
| "SerializeJSONValue (Num n) = Inr (Some (Number_toString n))"
| "SerializeJSONValue (Arr xs) =
     (case SerializeJSONArray xs of
        Inl e \<Rightarrow> Inl e
      | Inr ss \<Rightarrow> Inr (Some (''['' @ join_with '','' ss @ '']'')))"
| "SerializeJSONValue (Obj kvs) =
     (case SerializeJSONObject kvs of
        Inl e \<Rightarrow> Inl e
      | Inr ms \<Rightarrow> Inr (Some (''{'' @ join_with '','' ms @ ''}'')))"
| "SerializeJSONValue (Fun src outcome) = Inr None"
| "SerializeJSONValue Undefined = Inr None"
| "SerializeJSONObject [] = Inr []"
| "SerializeJSONObject ((k, v) # kvs) =
     (case SerializeJSONProperty v of
        Inl e \<Rightarrow> Inl e
      | Inr strP \<Rightarrow>
          (case SerializeJSONObject kvs of
             Inl e \<Rightarrow> Inl e
           | Inr ms \<Rightarrow>
               Inr (case strP of
                      None \<Rightarrow> ms
                    | Some s \<Rightarrow> (QuoteJSONString k @ '':'' @ s) # ms)))"
| "SerializeJSONArray [] = Inr []"
| "SerializeJSONArray (x # xs) =
     (case SerializeJSONProperty x of
        Inl e \<Rightarrow> Inl e
      | Inr strP \<Rightarrow>
          (case SerializeJSONArray xs of
             Inl e \<Rightarrow> Inl e
           | Inr ss \<Rightarrow> Inr ((case strP of None \<Rightarrow> ''null'' | Some s \<Rightarrow> s) # ss)))"
  by pat_completeness auto
termination
proof -
  have size_map_of: "size v < Suc (size_list (size_prod (\<lambda>_. 0) size) kvs)"
    if "map_of kvs k = Some v" for kvs :: "(string \<times> jsval) list" and k v
    using that by (induction kvs) (auto split: if_splits)
  have size_toJSON_of: "size r < size v" if "toJSON_of v = Some (Inr r)" for v r
    using that by (cases v) (auto split: option.splits jsval.splits dest!: size_map_of)
  show ?thesis
    by (relation "measure (\<lambda>x. case x of
           Inl (Inl v) \<Rightarrow> 2 * size v + 1
         | Inl (Inr v) \<Rightarrow> 2 * size v
         | Inr (Inl kvs) \<Rightarrow> 2 * size_list (size_prod (\<lambda>_. 0) size) kvs + 1
         | Inr (Inr xs) \<Rightarrow> 2 * size_list size xs + 1)")
       (auto dest: size_toJSON_of)
qed

definition JSON_stringify :: "jsval \<Rightarrow> js_error + jsval" where
  "JSON_stringify v =
     (case SerializeJSONProperty v of
        Inl e \<Rightarrow> Inl e
      | Inr None \<Rightarrow> Inr Undefined
      | Inr (Some s) \<Rightarrow> Inr (Str s))"

subsection \<open>Conversion to a string\<close>

text \<open>\<open>ToString\<close> on a primitive. The last equation is there for totality only: the
  function is applied to what \<open>ToPrimitive\<close> returns, which is never an object.\<close>

fun Primitive_toString :: "jsval \<Rightarrow> string" where
  "Primitive_toString Undefined = ''undefined''"
| "Primitive_toString Null = ''null''"
| "Primitive_toString (Bool b) = (if b then ''true'' else ''false'')"
| "Primitive_toString (Num n) = Number_toString n"
| "Primitive_toString (Str s) = s"
| "Primitive_toString v = ''[object Object]''"

datatype hint = HintDefault | HintString

text \<open>
  One step of \<open>OrdinaryToPrimitive\<close> on a plain object: the method \<open>name\<close> is the own
  property when there is one, else the one of \<open>Object.prototype\<close>. The result is
  \<open>Inr (Some p)\<close> when the method gave the primitive \<open>p\<close>, and \<open>Inr None\<close> when the
  property is not callable or gave an object, so that the next method is tried.
  \<open>Object.prototype.valueOf\<close> returns the object itself and
  \<open>Object.prototype.toString\<close> returns \<open>[object Object]\<close>.
\<close>

definition try_method :: "(string \<times> jsval) list \<Rightarrow> string \<Rightarrow> js_error + jsval option" where
  "try_method kvs name =
     (case map_of kvs name of
        None \<Rightarrow> (if name = ''toString'' then Inr (Some (Str ''[object Object]'')) else Inr None)
      | Some (Fun src outcome) \<Rightarrow>
          (case outcome of
             Inl e \<Rightarrow> Inl e
           | Inr r \<Rightarrow> Inr (if is_Object r then None else Some r))
      | Some v \<Rightarrow> Inr None)"

definition OrdinaryToPrimitive :: "hint \<Rightarrow> (string \<times> jsval) list \<Rightarrow> js_error + jsval" where
  "OrdinaryToPrimitive h kvs =
     (let methodNames = (case h of HintString \<Rightarrow> [''toString'', ''valueOf'']
                                 | HintDefault \<Rightarrow> [''valueOf'', ''toString''])
      in case try_method kvs (methodNames ! 0) of
           Inl e \<Rightarrow> Inl e
         | Inr (Some p) \<Rightarrow> Inr p
         | Inr None \<Rightarrow>
             (case try_method kvs (methodNames ! 1) of
                Inl e \<Rightarrow> Inl e
              | Inr (Some p) \<Rightarrow> Inr p
              | Inr None \<Rightarrow> Inl TypeError))"

text \<open>
  \<open>ToPrimitive\<close>: a primitive is its own result; a callable gives its source text; an array
  gives \<open>Array.prototype.join\<close> with the separator \<open>,\<close>, where \<open>undefined\<close> and \<open>null\<close>
  elements give the empty string and every other element is converted to a string, that
  is to a primitive with the hint \<open>string\<close> and from there to its string form.
\<close>

fun ToPrimitive :: "hint \<Rightarrow> jsval \<Rightarrow> js_error + jsval" and
    Array_prototype_join :: "jsval list \<Rightarrow> js_error + string list"
where
  "ToPrimitive h (Arr xs) =
     (case Array_prototype_join xs of
        Inl e \<Rightarrow> Inl e
      | Inr ss \<Rightarrow> Inr (Str (join_with '','' ss)))"
| "ToPrimitive h (Obj kvs) = OrdinaryToPrimitive h kvs"
| "ToPrimitive h (Fun src outcome) = Inr (Str src)"
| "ToPrimitive h v = Inr v"
| "Array_prototype_join [] = Inr []"
| "Array_prototype_join (x # xs) =
     (case (if x = Undefined \<or> x = Null then Inr (Str [])
            else ToPrimitive HintString x) of
        Inl e \<Rightarrow> Inl e
      | Inr p \<Rightarrow>
          (case Array_prototype_join xs of
             Inl e \<Rightarrow> Inl e
           | Inr ss \<Rightarrow> Inr (Primitive_toString p # ss)))"

text \<open>
  \<open>result += v\<close> where \<open>result\<close> holds a string: the addition operator converts \<open>v\<close> with
  \<open>ToPrimitive\<close> (no hint), and since the left operand is a string, it concatenates the
  string form of that primitive.
\<close>

definition string_plus :: "string \<Rightarrow> jsval \<Rightarrow> js_error + string" where
  "string_plus result v =
     (case ToPrimitive HintDefault v of
        Inl e \<Rightarrow> Inl e
      | Inr p \<Rightarrow> Inr (result @ Primitive_toString p))"

section \<open>The value processor\<close>

text \<open>
  The global \<open>Array\<close> is the array constructor. Its static methods are \<open>from\<close>,
  \<open>isArray\<close> and \<open>of\<close>; \<open>join\<close> lives on \<open>Array.prototype\<close> only, and neither
  \<open>Function.prototype\<close> nor \<open>Object.prototype\<close> has one, so the property read
  \<open>Array.join\<close> gives \<open>undefined\<close>.
\<close>

definition Array_join :: jsval where
  "Array_join = Undefined"

text \<open>
  \<^verbatim>\<open>
  function processValue(value) {
    if (typeof value === 'function') {
      return value() || '';
    } else if (Array.isArray(value)) {
      return Array.join('') || '';
    } else if (typeof value === 'object') {
      return JSON.stringify(value) || '';
    } else {
      return value || '';
    }
  }
  \<close>
\<close>

definition processValue :: "jsval \<Rightarrow> js_error + jsval" where
  "processValue value =
     (if typeof value = ''function'' then
        (case call value of Inl e \<Rightarrow> Inl e | Inr r \<Rightarrow> Inr (js_or r (Str [])))
      else if Array_isArray value then
        (case call Array_join of Inl e \<Rightarrow> Inl e | Inr r \<Rightarrow> Inr (js_or r (Str [])))
      else if typeof value = ''object'' then
        (case JSON_stringify value of Inl e \<Rightarrow> Inl e | Inr r \<Rightarrow> Inr (js_or r (Str [])))
      else Inr (js_or value (Str [])))"

section \<open>The template tag\<close>

text \<open>A read \<open>values[k]\<close> past the end of the array gives \<open>undefined\<close>.\<close>

definition index :: "jsval list \<Rightarrow> nat \<Rightarrow> jsval" where
  "index values k = (if k < length values then values ! k else Undefined)"

text \<open>
  \<^verbatim>\<open>
  function processTag(processor) {
    return function(parts, ...values) {
      let result = parts[0];
      for (var i = 1; i < parts.length; i++) {
        result += processor(values[i - 1]);
        result += parts[i];
      }
      return result;
    };
  }
  \<close>
  \<open>parts\<close> is the array of the literal's text fragments, all strings. The loop is entered
  only when \<open>parts\<close> has at least two elements, and then \<open>result\<close> holds a string from
  the start. With no fragment at all \<open>parts[0]\<close> is \<open>undefined\<close>, which is returned.
\<close>

function processTag_loop ::
  "(jsval \<Rightarrow> js_error + jsval) \<Rightarrow> string list \<Rightarrow> jsval list \<Rightarrow> nat \<Rightarrow> string \<Rightarrow> js_error + string"
where
  "processTag_loop processor parts values i result =
     (if i < length parts then
        (case processor (index values (i - 1)) of
           Inl e \<Rightarrow> Inl e
         | Inr v \<Rightarrow>
             (case string_plus result v of
                Inl e \<Rightarrow> Inl e
              | Inr result1 \<Rightarrow>
                  processTag_loop processor parts values (i + 1) (result1 @ parts ! i)))
      else Inr result)"
  by pat_completeness auto
termination
  by (relation "measure (\<lambda>(processor, parts, values, i, result). length parts - i)") auto

declare processTag_loop.simps [simp del]

definition processTag ::
  "(jsval \<Rightarrow> js_error + jsval) \<Rightarrow> string list \<Rightarrow> jsval list \<Rightarrow> js_error + jsval" where
  "processTag processor parts values =
     (case parts of
        [] \<Rightarrow> Inr Undefined
      | p0 # ps \<Rightarrow>
          (case processTag_loop processor parts values 1 p0 of
             Inl e \<Rightarrow> Inl e
           | Inr result \<Rightarrow> Inr (Str result)))"

text \<open>\<^verbatim>\<open>const t = processTag(processValue);\<close>\<close>

definition t :: "string list \<Rightarrow> jsval list \<Rightarrow> js_error + jsval" where
  "t = processTag processValue"

subsection \<open>What the tag is specified to compute\<close>

text \<open>
  The text that one interpolated value contributes to the result: the value is processed,
  and what the processor returns is appended to a string, which converts it to a string.
\<close>

definition contribution :: "(jsval \<Rightarrow> js_error + jsval) \<Rightarrow> jsval \<Rightarrow> js_error + string" where
  "contribution processor v =
     (case processor v of Inl e \<Rightarrow> Inl e | Inr r \<Rightarrow> string_plus [] r)"

text \<open>Outcomes taken from left to right: the first error is the error of the whole.\<close>

fun in_order :: "(js_error + string) list \<Rightarrow> js_error + string list" where
  "in_order [] = Inr []"
| "in_order (Inl e # rs) = Inl e"
| "in_order (Inr s # rs) =
     (case in_order rs of Inl e \<Rightarrow> Inl e | Inr ss \<Rightarrow> Inr (s # ss))"

text \<open>\<open>fragments[0]\<close>, then for each value its text followed by the next fragment.\<close>

definition interleave :: "string list \<Rightarrow> string list \<Rightarrow> string" where
  "interleave fragments texts =
     hd fragments @ concat (map (\<lambda>(s, fragment). s @ fragment) (zip texts (tl fragments)))"

section \<open>The template-source transformer\<close>

text \<open>
  The syntax tree, with the node types the two visitors look at and \<open>Other ty children\<close>
  for every other node type \<open>ty\<close>. A template literal has its text fragments (the quasis)
  and its interpolated expressions; a tagged template expression has a tag and a quasi.
\<close>

datatype node =
    Identifier string
  | TemplateLiteral "string list" "node list"
  | TaggedTemplateExpression node node
  | ExpressionStatement node
  | LabeledStatement string node
  | ReturnStatement "node option"
  | Other string "node list"

text \<open>
  \<^verbatim>\<open>
  function transformTTL(tagName) {
    return function({ types: t }) {
      return {
        visitor: {
          TemplateLiteral(path) {
            // Avoid tagging template literals that are already tagged
            if (path.parent.type !== 'TaggedTemplateExpression') {
              path.replaceWith(
                t.taggedTemplateExpression(t.identifier(tagName), path.node)
              );
            }
          }
        }
      };
    };
  }
  \<close>
  The traversal calls the visitor on every template literal, with the type of its parent
  node. A node put in place by \<open>replaceWith\<close> is queued again and traversed: the new tagged
  template expression has no visitor, its quasi is the literal, now under a tagged template
  expression and so left as it is, and the traversal goes on into the literal's expressions.
\<close>

fun transformTTL :: "string \<Rightarrow> string \<Rightarrow> node \<Rightarrow> node" where
  "transformTTL tagName parent (TemplateLiteral quasis exprs) =
     (if parent \<noteq> ''TaggedTemplateExpression''
      then TaggedTemplateExpression (Identifier tagName)
             (TemplateLiteral quasis (map (transformTTL tagName ''TemplateLiteral'') exprs))
      else TemplateLiteral quasis (map (transformTTL tagName ''TemplateLiteral'') exprs))"
| "transformTTL tagName parent (TaggedTemplateExpression tag quasi) =
     TaggedTemplateExpression
       (transformTTL tagName ''TaggedTemplateExpression'' tag)
       (transformTTL tagName ''TaggedTemplateExpression'' quasi)"
| "transformTTL tagName parent (ExpressionStatement e) =
     ExpressionStatement (transformTTL tagName ''ExpressionStatement'' e)"
| "transformTTL tagName parent (LabeledStatement l body) =
     LabeledStatement l (transformTTL tagName ''LabeledStatement'' body)"
| "transformTTL tagName parent (ReturnStatement None) = ReturnStatement None"
| "transformTTL tagName parent (ReturnStatement (Some e)) =
     ReturnStatement (Some (transformTTL tagName ''ReturnStatement'' e))"
| "transformTTL tagName parent (Other ty children) =
     Other ty (map (transformTTL tagName ty) children)"
| "transformTTL tagName parent (Identifier x) = Identifier x"

text \<open>
  \<^verbatim>\<open>
  function transformLabelToReturn(labelName = 'template') {
    return function({ types: t }) {
      return {
        visitor: {
          LabeledStatement(path) {
            console.log(path.node.label.name);
            if (path.node.label.name === labelName) {
              path.replaceWith(t.returnStatement(path.node.body.expression));
            }
          }
        }
      };
    };
  }
  \<close>
  \<open>path.node.body.expression\<close> is the expression of an expression statement and
  \<open>undefined\<close> for any other body, which gives a \<open>return\<close> without argument. The new
  return statement is traversed in turn. The line written to the console is not part of
  the tree and is left out.
\<close>

fun transformLabelToReturn :: "string \<Rightarrow> node \<Rightarrow> node" where
  "transformLabelToReturn labelName (LabeledStatement l body) =
     (if l = labelName
      then ReturnStatement
             (case body of
                ExpressionStatement e \<Rightarrow> Some (transformLabelToReturn labelName e)
              | _ \<Rightarrow> None)
      else LabeledStatement l (transformLabelToReturn labelName body))"
| "transformLabelToReturn labelName (TemplateLiteral quasis exprs) =
     TemplateLiteral quasis (map (transformLabelToReturn labelName) exprs)"
| "transformLabelToReturn labelName (TaggedTemplateExpression tag quasi) =
     TaggedTemplateExpression
       (transformLabelToReturn labelName tag) (transformLabelToReturn labelName quasi)"
| "transformLabelToReturn labelName (ExpressionStatement e) =
     ExpressionStatement (transformLabelToReturn labelName e)"
| "transformLabelToReturn labelName (ReturnStatement None) = ReturnStatement None"
| "transformLabelToReturn labelName (ReturnStatement (Some e)) =
     ReturnStatement (Some (transformLabelToReturn labelName e))"
| "transformLabelToReturn labelName (Other ty children) =
     Other ty (map (transformLabelToReturn labelName) children)"
| "transformLabelToReturn labelName (Identifier x) = Identifier x"

text \<open>
  Given several plugins, \<open>transformSync\<close> merges their visitors and walks the tree once.
  \<open>traverse tagName labelName parent n\<close> is that walk for the two visitors above, on the
  node \<open>n\<close> whose parent has the type \<open>parent\<close>.
\<close>

fun traverse :: "string \<Rightarrow> string \<Rightarrow> string \<Rightarrow> node \<Rightarrow> node" where
  "traverse tagName labelName parent (TemplateLiteral quasis exprs) =
     (if parent \<noteq> ''TaggedTemplateExpression''
      then TaggedTemplateExpression (Identifier tagName)
             (TemplateLiteral quasis (map (traverse tagName labelName ''TemplateLiteral'') exprs))
      else TemplateLiteral quasis (map (traverse tagName labelName ''TemplateLiteral'') exprs))"
| "traverse tagName labelName parent (LabeledStatement l body) =
     (if l = labelName
      then ReturnStatement
             (case body of
                ExpressionStatement e \<Rightarrow> Some (traverse tagName labelName ''ReturnStatement'' e)
              | _ \<Rightarrow> None)
      else LabeledStatement l (traverse tagName labelName ''LabeledStatement'' body))"
| "traverse tagName labelName parent (TaggedTemplateExpression tag quasi) =
     TaggedTemplateExpression
       (traverse tagName labelName ''TaggedTemplateExpression'' tag)
       (traverse tagName labelName ''TaggedTemplateExpression'' quasi)"
| "traverse tagName labelName parent (ExpressionStatement e) =
     ExpressionStatement (traverse tagName labelName ''ExpressionStatement'' e)"
| "traverse tagName labelName parent (ReturnStatement None) = ReturnStatement None"
| "traverse tagName labelName parent (ReturnStatement (Some e)) =
     ReturnStatement (Some (traverse tagName labelName ''ReturnStatement'' e))"
| "traverse tagName labelName parent (Other ty children) =
     Other ty (map (traverse tagName labelName ty) children)"
| "traverse tagName labelName parent (Identifier x) = Identifier x"

text \<open>
  \<^verbatim>\<open>
  function fromFile(templatePath) {
    const fs = require('fs');
    const content = fs.readFileSync(templatePath, 'utf-8');
    const { transformSync } = require('@babel/core');
    const TAG_NAME = 't';
    const result = transformSync(content, {
      plugins: [transformTTL(TAG_NAME), transformLabelToReturn('template')]
    });
    const ARGUMENT_NAME = 'context';
    const body = `with(${ARGUMENT_NAME}) {
      ${result.code}
    }`;
    return new Function(ARGUMENT_NAME, body);
  }
  \<close>
  A file is given by what parsing its content yields, a syntax error or the tree of the
  program, whose parent is the \<open>File\<close> node; a path with no file makes
  \<open>readFileSync\<close> throw. The compiled function is given by its parameter name and the
  tree of its body, the transformed program inside the \<open>with\<close> statement.
  \<open>new Function(ARGUMENT_NAME, body)\<close> parses the text of the body as the code of a
  function and throws a \<open>SyntaxError\<close> when it is not, as for a source with an import
  declaration, which Babel accepts. What the engine accepts is not written in the
  repository: \<open>isFunctionBody\<close> is the verdict of the engine on the tree of the body.
\<close>

definition TAG_NAME :: string where
  "TAG_NAME = ''t''"

definition ARGUMENT_NAME :: string where
  "ARGUMENT_NAME = ''context''"

datatype compiled = Function string node

definition transformSync :: "js_error + node \<Rightarrow> js_error + node" where
  "transformSync parsed =
     (case parsed of
        Inl e \<Rightarrow> Inl e
      | Inr ast \<Rightarrow> Inr (traverse TAG_NAME ''template'' ''File'' ast))"

definition fromFile ::
  "(string \<Rightarrow> (js_error + node) option) \<Rightarrow> (node \<Rightarrow> bool) \<Rightarrow> string \<Rightarrow> js_error + compiled"
where
  "fromFile fs isFunctionBody templatePath =
     (case fs templatePath of
        None \<Rightarrow> Inl (Thrown ''ENOENT'')
      | Some content \<Rightarrow>
          (case transformSync content of
             Inl e \<Rightarrow> Inl e
           | Inr code \<Rightarrow>
               (if isFunctionBody (Other ''WithStatement'' [Identifier ARGUMENT_NAME, code])
                then Inr (Function ARGUMENT_NAME
                            (Other ''WithStatement'' [Identifier ARGUMENT_NAME, code]))
                else Inl SyntaxError)))"

text \<open>
  A verdict for the examples, where what the engine does is plain: the import and export
  declarations, which only a module may hold, make a body rejected.
\<close>

definition module_declarations :: "string list" where
  "module_declarations =
     [''ImportDeclaration'', ''ExportNamedDeclaration'', ''ExportDefaultDeclaration'',
      ''ExportAllDeclaration'']"

fun module_declaration_count :: "node \<Rightarrow> nat" where
  "module_declaration_count (Other ty children) =
     (if ty \<in> set module_declarations then 1 else 0)
       + sum_list (map module_declaration_count children)"
| "module_declaration_count (TemplateLiteral quasis exprs) =
     sum_list (map module_declaration_count exprs)"
| "module_declaration_count (TaggedTemplateExpression tag quasi) =
     module_declaration_count tag + module_declaration_count quasi"
| "module_declaration_count (ExpressionStatement e) = module_declaration_count e"
| "module_declaration_count (LabeledStatement l body) = module_declaration_count body"
| "module_declaration_count (ReturnStatement None) = 0"
| "module_declaration_count (ReturnStatement (Some e)) = module_declaration_count e"
| "module_declaration_count (Identifier x) = 0"

definition rejects_module_declarations :: "node \<Rightarrow> bool" where
  "rejects_module_declarations body = (module_declaration_count body = 0)"

subsection \<open>Counting nodes\<close>

text \<open>The labeled statements with the label \<open>labelName\<close>, anywhere in the tree.\<close>

fun labeled_count :: "string \<Rightarrow> node \<Rightarrow> nat" where
  "labeled_count labelName (LabeledStatement l body) =
     (if l = labelName then 1 else 0) + labeled_count labelName body"
| "labeled_count labelName (TemplateLiteral quasis exprs) =
     sum_list (map (labeled_count labelName) exprs)"
| "labeled_count labelName (TaggedTemplateExpression tag quasi) =
     labeled_count labelName tag + labeled_count labelName quasi"
| "labeled_count labelName (ExpressionStatement e) = labeled_count labelName e"
| "labeled_count labelName (ReturnStatement None) = 0"
| "labeled_count labelName (ReturnStatement (Some e)) = labeled_count labelName e"
| "labeled_count labelName (Other ty children) =
     sum_list (map (labeled_count labelName) children)"
| "labeled_count labelName (Identifier x) = 0"

text \<open>The return statements, anywhere in the tree.\<close>

fun return_count :: "node \<Rightarrow> nat" where
  "return_count (ReturnStatement None) = 1"
| "return_count (ReturnStatement (Some e)) = 1 + return_count e"
| "return_count (LabeledStatement l body) = return_count body"
| "return_count (TemplateLiteral quasis exprs) = sum_list (map return_count exprs)"
| "return_count (TaggedTemplateExpression tag quasi) = return_count tag + return_count quasi"
| "return_count (ExpressionStatement e) = return_count e"
| "return_count (Other ty children) = sum_list (map return_count children)"
| "return_count (Identifier x) = 0"

text \<open>
  The return statements of the code itself, those that are not inside a function nested
  in it: they are the ones that end an invocation with a value.
\<close>

definition function_types :: "string list" where
  "function_types =
     [''FunctionDeclaration'', ''FunctionExpression'', ''ArrowFunctionExpression'',
      ''ObjectMethod'', ''ClassMethod'', ''ClassPrivateMethod'']"

fun own_return_count :: "node \<Rightarrow> nat" where
  "own_return_count (ReturnStatement None) = 1"
| "own_return_count (ReturnStatement (Some e)) = 1 + own_return_count e"
| "own_return_count (Other ty children) =
     (if ty \<in> set function_types then 0 else sum_list (map own_return_count children))"
| "own_return_count (LabeledStatement l body) = own_return_count body"
| "own_return_count (TemplateLiteral quasis exprs) = sum_list (map own_return_count exprs)"
| "own_return_count (TaggedTemplateExpression tag quasi) =
     own_return_count tag + own_return_count quasi"
| "own_return_count (ExpressionStatement e) = own_return_count e"
| "own_return_count (Identifier x) = 0"

text \<open>The tagged template expressions, anywhere in the tree.\<close>

fun tagged_count :: "node \<Rightarrow> nat" where
  "tagged_count (TaggedTemplateExpression tag quasi) = 1 + tagged_count tag + tagged_count quasi"
| "tagged_count (TemplateLiteral quasis exprs) = sum_list (map tagged_count exprs)"
| "tagged_count (ExpressionStatement e) = tagged_count e"
| "tagged_count (LabeledStatement l body) = tagged_count body"
| "tagged_count (ReturnStatement None) = 0"
| "tagged_count (ReturnStatement (Some e)) = tagged_count e"
| "tagged_count (Other ty children) = sum_list (map tagged_count children)"
| "tagged_count (Identifier x) = 0"

text \<open>
  The tree without the tag \<open>tagName\<close>: every tagged template expression whose tag is the
  identifier \<open>tagName\<close> and whose quasi is a template literal is replaced by that literal,
  and nothing else is changed.
\<close>

fun is_TemplateLiteral :: "node \<Rightarrow> bool" where
  "is_TemplateLiteral (TemplateLiteral quasis exprs) = True"
| "is_TemplateLiteral n = False"

fun erase_tag :: "string \<Rightarrow> node \<Rightarrow> node" where
  "erase_tag tagName (TaggedTemplateExpression tag quasi) =
     (if tag = Identifier tagName \<and> is_TemplateLiteral quasi
      then erase_tag tagName quasi
      else TaggedTemplateExpression (erase_tag tagName tag) (erase_tag tagName quasi))"
| "erase_tag tagName (TemplateLiteral quasis exprs) =
     TemplateLiteral quasis (map (erase_tag tagName) exprs)"
| "erase_tag tagName (ExpressionStatement e) = ExpressionStatement (erase_tag tagName e)"
| "erase_tag tagName (LabeledStatement l body) = LabeledStatement l (erase_tag tagName body)"
| "erase_tag tagName (ReturnStatement None) = ReturnStatement None"
| "erase_tag tagName (ReturnStatement (Some e)) = ReturnStatement (Some (erase_tag tagName e))"
| "erase_tag tagName (Other ty children) = Other ty (map (erase_tag tagName) children)"
| "erase_tag tagName (Identifier x) = Identifier x"

text \<open>The template literals whose parent, of type \<open>parent\<close> at the root, is not a tagged
  template expression.\<close>

fun untagged_count :: "string \<Rightarrow> node \<Rightarrow> nat" where
  "untagged_count parent (TemplateLiteral quasis exprs) =
     (if parent \<noteq> ''TaggedTemplateExpression'' then 1 else 0)
       + sum_list (map (untagged_count ''TemplateLiteral'') exprs)"
| "untagged_count parent (TaggedTemplateExpression tag quasi) =
     untagged_count ''TaggedTemplateExpression'' tag
       + untagged_count ''TaggedTemplateExpression'' quasi"
| "untagged_count parent (ExpressionStatement e) = untagged_count ''ExpressionStatement'' e"
| "untagged_count parent (LabeledStatement l body) = untagged_count ''LabeledStatement'' body"
| "untagged_count parent (ReturnStatement None) = 0"
| "untagged_count parent (ReturnStatement (Some e)) = untagged_count ''ReturnStatement'' e"
| "untagged_count parent (Other ty children) = sum_list (map (untagged_count ty) children)"
| "untagged_count parent (Identifier x) = 0"

section \<open>Properties of the value processor\<close>

text \<open>
  C9. The value processor is idempotent on plain strings: for every string \<open>s\<close>,
  \<open>processValue(s)\<close> returns \<open>s\<close> itself. A non-empty string is truthy and is returned
  as it is; the empty string is falsy and is replaced by the empty string.
\<close>

theorem processValue_string_unchanged:
  "processValue (Str s) = Inr (Str s)"
  by (simp add: processValue_def js_or_def)

text \<open>
  C10. For every array, whatever its elements, the array branch of the value processor
  throws: it calls \<open>Array.join\<close>, which is \<open>undefined\<close> and not a function, so the call
  raises a \<open>TypeError\<close> and no string is returned.
\<close>

theorem processValue_array_throws:
  "processValue (Arr xs) = Inl TypeError"
  by (simp add: processValue_def Array_join_def)

text \<open>
  C1. The value processor on the array \<open>['a', 'b']\<close>: the elements joined with the empty
  separator would be \<open>ab\<close>, and the code throws a \<open>TypeError\<close> instead.
\<close>

theorem processValue_array_not_joined:
  "processValue (Arr [Str ''a'', Str ''b'']) = Inl TypeError
   \<and> processValue (Arr [Str ''a'', Str ''b'']) \<noteq> Inr (Str ''ab'')"
  by (simp add: processValue_def Array_join_def)

text \<open>
  C4, as the code has it. For every callable, the value processor calls it once with no
  arguments. An error thrown by the callable is thrown by the processor. A truthy result is
  returned as it is, without being processed again, and a falsy result (\<open>undefined\<close>,
  \<open>null\<close>, \<open>false\<close>, \<open>0\<close>, the empty string) gives the empty string. In particular
  \<open>processValue(() => 'x')\<close> is \<open>'x'\<close> and \<open>processValue(() => undefined)\<close> is the empty
  string.
\<close>

theorem processValue_callable:
  "processValue (Fun src outcome) =
     (case outcome of
        Inl e \<Rightarrow> Inl e
      | Inr r \<Rightarrow> Inr (if ToBoolean r then r else Str []))
   \<and> processValue (Fun ''() => `x`'' (Inr (Str ''x''))) = Inr (Str ''x'')
   \<and> processValue (Fun ''() => undefined'' (Inr Undefined)) = Inr (Str [])"
  by (simp add: processValue_def js_or_def split: sum.splits)

text \<open>
  C4 as stated fails: the result of the callable is not processed again. A callable that
  returns the object \<open>{a: 1}\<close> makes the processor return that object, whereas processing
  the object gives its JSON text.
\<close>

theorem processValue_callable_not_recursive:
  "processValue (Fun ''() => ({a: 1})'' (Inr (Obj [(''a'', Num 1)]))) = Inr (Obj [(''a'', Num 1)])
   \<and> processValue (Obj [(''a'', Num 1)]) =
       Inr (Str [CHR ''{'', CHR 0x22, CHR ''a'', CHR 0x22, CHR '':'', CHR ''1'', CHR ''}''])
   \<and> processValue (Fun ''() => ({a: 1})'' (Inr (Obj [(''a'', Num 1)])))
       \<noteq> processValue (Obj [(''a'', Num 1)])"
  by (simp add: processValue_def js_or_def JSON_stringify_def QuoteJSONString_def
        quote_char_def Number_toString_def digit_char_def)

text \<open>
  C5, as the code has it. For a value that is neither callable nor an array: a plain object
  gives \<open>JSON.stringify\<close> of it, or the empty string when that is \<open>undefined\<close>, and an
  error thrown by a \<open>toJSON\<close> method is thrown by the processor; \<open>undefined\<close> gives the
  empty string; a boolean, a number or a string is returned as it is, not converted to a
  string, when it is truthy, and gives the empty string when it is falsy. So \<open>{a: 1}\<close> gives
  the text \<open>{"a":1}\<close>, an object whose \<open>toJSON\<close> returns \<open>undefined\<close> gives the empty
  string, the number \<open>5\<close> gives the number \<open>5\<close> and \<open>true\<close> gives \<open>true\<close>.
\<close>

theorem processValue_object_or_primitive:
  "processValue (Obj kvs) =
     (case JSON_stringify (Obj kvs) of
        Inl e \<Rightarrow> Inl e
      | Inr r \<Rightarrow> Inr (if ToBoolean r then r else Str []))
   \<and> processValue (Obj [(''a'', Num 1)]) =
       Inr (Str [CHR ''{'', CHR 0x22, CHR ''a'', CHR 0x22, CHR '':'', CHR ''1'', CHR ''}''])
   \<and> processValue (Obj [(''toJSON'', Fun ''() => undefined'' (Inr Undefined))]) = Inr (Str [])
   \<and> processValue Undefined = Inr (Str [])
   \<and> processValue (Bool b) = Inr (if b then Bool True else Str [])
   \<and> processValue (Num n) = Inr (if n = 0 then Str [] else Num n)
   \<and> processValue (Str s) = Inr (Str s)"
proof -
  have "processValue (Obj [(''a'', Num 1)]) =
       Inr (Str [CHR ''{'', CHR 0x22, CHR ''a'', CHR 0x22, CHR '':'', CHR ''1'', CHR ''}''])"
    by (simp add: processValue_def js_or_def JSON_stringify_def QuoteJSONString_def
          quote_char_def Number_toString_def digit_char_def)
  moreover have "processValue (Obj kvs) =
     (case JSON_stringify (Obj kvs) of
        Inl e \<Rightarrow> Inl e
      | Inr r \<Rightarrow> Inr (if ToBoolean r then r else Str []))"
    by (simp add: processValue_def js_or_def split: sum.splits)
  moreover have
    "processValue (Obj [(''toJSON'', Fun ''() => undefined'' (Inr Undefined))]) = Inr (Str [])"
    by (simp add: processValue_def js_or_def JSON_stringify_def)
  moreover have "processValue (Bool b) = Inr (if b then Bool True else Str [])"
    by (simp add: processValue_def js_or_def)
  moreover have "processValue (Num n) = Inr (if n = 0 then Str [] else Num n)"
    by (simp add: processValue_def js_or_def)
  ultimately show ?thesis
    by (simp add: processValue_def js_or_def)
qed

text \<open>
  C5 as stated fails: the number \<open>5\<close> is neither callable nor an array nor an object, and
  the processor returns the number itself, not its string form \<open>'5'\<close>: the result is not
  a string.
\<close>

theorem processValue_number_not_string:
  "typeof (Num 5) \<noteq> ''function'' \<and> \<not> Array_isArray (Num 5) \<and> typeof (Num 5) \<noteq> ''object''
   \<and> processValue (Num 5) = Inr (Num 5)
   \<and> processValue (Num 5) \<noteq> Inr (Str ''5'')"
  by (simp add: processValue_def js_or_def)

section \<open>Properties of the template tag\<close>

lemma string_plus_append:
  "string_plus result v =
     (case string_plus [] v of Inl e \<Rightarrow> Inl e | Inr s \<Rightarrow> Inr (result @ s))"
  by (simp add: string_plus_def split: sum.splits)

text \<open>
  The loop from the index \<open>j + 1\<close> on: it takes the remaining values in order, stops at the
  first error, and otherwise appends to \<open>result\<close> the text of each value followed by the
  fragment after it.
\<close>

lemma processTag_loop_in_order:
  "length parts = Suc (length vs) \<Longrightarrow> j \<le> length vs \<Longrightarrow>
   processTag_loop processor parts vs (Suc j) result =
     (case in_order (map (contribution processor) (drop j vs)) of
        Inl e \<Rightarrow> Inl e
      | Inr ss \<Rightarrow>
          Inr (result @ concat (map (\<lambda>(s, fragment). s @ fragment) (zip ss (drop (Suc j) parts)))))"
proof (induction "length vs - j" arbitrary: j result)
  case 0
  then have "\<not> Suc j < length parts" "drop j vs = []" by auto
  then show ?case
    by (subst processTag_loop.simps) simp
next
  case (Suc n)
  then have lt: "j < length vs" and cond: "Suc j < length parts" by auto
  have dv: "drop j vs = vs ! j # drop (Suc j) vs"
    using lt by (simp add: Cons_nth_drop_Suc)
  have dp: "drop (Suc j) parts = parts ! Suc j # drop (Suc (Suc j)) parts"
    using cond by (simp add: Cons_nth_drop_Suc)
  have ix: "index vs j = vs ! j"
    using lt by (simp add: index_def)
  have unfold: "processTag_loop processor parts vs (Suc j) result =
      (case processor (vs ! j) of
         Inl e \<Rightarrow> Inl e
       | Inr v \<Rightarrow>
           (case string_plus result v of
              Inl e \<Rightarrow> Inl e
            | Inr result1 \<Rightarrow>
                processTag_loop processor parts vs (Suc (Suc j)) (result1 @ parts ! Suc j)))"
    by (subst processTag_loop.simps) (simp add: cond ix cong: sum.case_cong)
  have ih: "processTag_loop processor parts vs (Suc (Suc j)) r =
      (case in_order (map (contribution processor) (drop (Suc j) vs)) of
         Inl e \<Rightarrow> Inl e
       | Inr ss \<Rightarrow>
           Inr (r @ concat (map (\<lambda>(s, fragment). s @ fragment) (zip ss (drop (Suc (Suc j)) parts)))))" for r
    using Suc.hyps(1)[of "Suc j" r] Suc.hyps(2) Suc.prems lt by simp
  show ?case
  proof (cases "processor (vs ! j)")
    case (Inl e)
    then show ?thesis by (simp add: unfold dv contribution_def)
  next
    case pv: (Inr v)
    show ?thesis
    proof (cases "string_plus [] v")
      case (Inl e)
      then have "string_plus result v = Inl e"
        by (subst string_plus_append) simp
      with Inl pv show ?thesis by (simp add: unfold dv contribution_def)
    next
      case (Inr s)
      then have "string_plus result v = Inr (result @ s)"
        by (subst string_plus_append) simp
      with Inr pv show ?thesis
        by (simp add: unfold dv dp contribution_def ih split: sum.splits)
    qed
  qed
qed

lemma processTag_in_order:
  assumes "length parts = Suc (length vs)"
  shows "processTag processor parts vs =
     (case in_order (map (contribution processor) vs) of
        Inl e \<Rightarrow> Inl e
      | Inr texts \<Rightarrow> Inr (Str (interleave parts texts)))"
proof -
  obtain p0 ps where p: "parts = p0 # ps" using assms by (cases parts) auto
  have "processTag_loop processor parts vs 1 p0 =
     (case in_order (map (contribution processor) vs) of
        Inl e \<Rightarrow> Inl e
      | Inr ss \<Rightarrow> Inr (p0 @ concat (map (\<lambda>(s, fragment). s @ fragment) (zip ss ps))))"
    using processTag_loop_in_order[OF assms, of 0 processor p0] unfolding p
    by (simp cong: sum.case_cong)
  then show ?thesis
    by (simp add: processTag_def p interleave_def split: sum.splits)
qed

text \<open>
  C2. For fragments of length \<open>n + 1\<close> and values of length \<open>n\<close>, the tag processes the
  values from left to right: the first value whose processing or conversion to text throws
  makes the tag throw that error, and when none throws the tag returns \<open>fragments[0]\<close>
  followed, for each \<open>i\<close> from \<open>1\<close> to \<open>n\<close>, by the text of \<open>process(values[i-1])\<close> and
  then \<open>fragments[i]\<close>.
\<close>

theorem t_concatenates_in_order:
  "length parts = Suc (length vs) \<Longrightarrow>
   t parts vs =
     (case in_order (map (contribution processValue) vs) of
        Inl e \<Rightarrow> Inl e
      | Inr texts \<Rightarrow> Inr (Str (interleave parts texts)))"
  unfolding t_def by (rule processTag_in_order)

text \<open>C2 at three fragments and two values, a string and a number.\<close>

theorem t_concatenates_in_order_witness:
  "length [''<h1>'', '' is '', ''</h1>''] = Suc (length [Str ''Romaric'', Num 7])
   \<and> t [''<h1>'', '' is '', ''</h1>''] [Str ''Romaric'', Num 7] = Inr (Str ''<h1>Romaric is 7</h1>'')"
  using t_concatenates_in_order [of "[''<h1>'', '' is '', ''</h1>'']" "[Str ''Romaric'', Num 7]"]
  by (simp add: contribution_def processValue_def js_or_def string_plus_def interleave_def
        Number_toString_def digit_char_def)

text \<open>The loop reads the values only at the indices below \<open>parts.length - 1\<close>.\<close>

lemma processTag_loop_reads:
  "(\<And>k. k < length parts - 1 \<Longrightarrow> index vs k = index ws k) \<Longrightarrow> 1 \<le> i \<Longrightarrow>
   processTag_loop processor parts vs i result = processTag_loop processor parts ws i result"
proof (induction "length parts - i" arbitrary: i result)
  case 0
  then have "\<not> i < length parts" by simp
  then show ?case
    by (subst processTag_loop.simps, subst (2) processTag_loop.simps) simp
next
  case (Suc n)
  then have cond: "i < length parts" by simp
  with Suc.prems(2) have "i - 1 < length parts - 1" by simp
  then have "index vs (i - 1) = index ws (i - 1)" by (rule Suc.prems(1))
  then have ix: "index vs (i - Suc 0) = index ws (i - Suc 0)" by simp
  have ih: "processTag_loop processor parts vs (Suc i) r =
      processTag_loop processor parts ws (Suc i) r" for r
    using Suc.hyps(1)[of "Suc i" r] Suc.hyps(2) Suc.prems by simp
  show ?case
    by (subst processTag_loop.simps, subst (2) processTag_loop.simps)
       (simp add: cond ix ih cong: sum.case_cong)
qed

lemma index_padded:
  "k < n \<Longrightarrow> index (take n (vs @ replicate (n - length vs) Undefined)) k = index vs k"
  by (auto simp add: index_def nth_append)

text \<open>
  C3, as the code has it. The tag checks nothing about the number of values: whatever the
  lengths, it returns what it returns on the values cut or padded with \<open>undefined\<close> to
  one less than the number of fragments, the length that C2 is about. Values beyond that
  length are ignored, and a missing value is processed as \<open>undefined\<close>.
\<close>

theorem t_checks_no_arity:
  "t parts vs =
     t parts (take (length parts - 1) (vs @ replicate (length parts - 1 - length vs) Undefined))
   \<and> length (take (length parts - 1) (vs @ replicate (length parts - 1 - length vs) Undefined))
       = length parts - 1"
proof -
  have loop: "processTag_loop processValue parts vs 1 r =
        processTag_loop processValue parts
          (take (length parts - 1) (vs @ replicate (length parts - 1 - length vs) Undefined)) 1 r" for r
  proof (rule processTag_loop_reads)
    fix k
    assume "k < length parts - 1"
    then show "index vs k =
        index (take (length parts - 1) (vs @ replicate (length parts - 1 - length vs) Undefined)) k"
      by (rule index_padded [symmetric])
  qed simp
  have "t parts vs =
     t parts (take (length parts - 1) (vs @ replicate (length parts - 1 - length vs) Undefined))"
  proof (cases parts)
    case Nil
    then show ?thesis by (simp add: t_def processTag_def)
  next
    case (Cons p0 ps)
    with loop [of p0] show ?thesis by (simp add: t_def processTag_def)
  qed
  moreover have
    "length (take (length parts - 1) (vs @ replicate (length parts - 1 - length vs) Undefined))
       = length parts - 1"
    by simp
  ultimately show ?thesis by (rule conjI)
qed

text \<open>
  C3 as stated fails: with two fragments and no value the tag is not rejected, it returns
  the two fragments joined.
\<close>

theorem t_missing_value_not_rejected:
  "length [''a'', ''b''] \<noteq> length ([] :: jsval list) + 1
   \<and> t [''a'', ''b''] [] = Inr (Str ''ab'')"
  by code_simp

text \<open>
  C8. The tag is re-entrant: when a callable returns what the tag gives on an inner
  template, a string \<open>s\<close>, the processor returns \<open>s\<close> for that callable, the text it
  contributes to any outer template is \<open>s\<close>, and the outer template with the fragments
  \<open>a\<close> and \<open>b\<close> around it gives \<open>a\<close>, \<open>s\<close>, \<open>b\<close> concatenated. In particular the template \<open><a>${() => t`<b>${1}</b>`}</a>\<close> under the
  tag gives \<open><a><b>1</b></a>\<close>.
\<close>

theorem t_reentrant:
  "(t ps vs = Inr (Str s) \<longrightarrow>
      processValue (Fun src (t ps vs)) = Inr (Str s)
      \<and> contribution processValue (Fun src (t ps vs)) = Inr s
      \<and> t [a, b] [Fun src (t ps vs)] = Inr (Str (a @ s @ b)))
   \<and> t [''<a>'', ''</a>''] [Fun ''() => t`<b>${1}</b>`'' (t [''<b>'', ''</b>''] [Num 1])]
       = Inr (Str ''<a><b>1</b></a>'')"
proof -
  have general: "processValue (Fun src (t ps vs)) = Inr (Str s)
      \<and> contribution processValue (Fun src (t ps vs)) = Inr s
      \<and> t [a, b] [Fun src (t ps vs)] = Inr (Str (a @ s @ b))"
    if "t ps vs = Inr (Str s)" for ps vs s src a b
    using that
    by (simp add: t_def processTag_in_order contribution_def processValue_def js_or_def
          string_plus_def interleave_def)
  have inner: "t [''<b>'', ''</b>''] [Num 1] = Inr (Str ''<b>1</b>'')"
    by (simp add: t_def processTag_in_order contribution_def processValue_def js_or_def
          string_plus_def interleave_def Number_toString_def digit_char_def)
  show ?thesis
    using general general[OF inner, of "''() => t`<b>${1}</b>`''" "''<a>''" "''</a>''"] by simp
qed

text \<open>C8 at a list item inside a list.\<close>

theorem t_reentrant_witness:
  "t [''<li>'', ''</li>''] [Str ''x''] = Inr (Str ''<li>x</li>'')
   \<and> processValue (Fun ''f'' (t [''<li>'', ''</li>''] [Str ''x''])) = Inr (Str ''<li>x</li>'')
   \<and> contribution processValue (Fun ''f'' (t [''<li>'', ''</li>''] [Str ''x''])) = Inr ''<li>x</li>''
   \<and> t [''<ul>'', ''</ul>''] [Fun ''f'' (t [''<li>'', ''</li>''] [Str ''x''])]
       = Inr (Str ''<ul><li>x</li></ul>'')"
proof -
  have inner: "t [''<li>'', ''</li>''] [Str ''x''] = Inr (Str ''<li>x</li>'')"
    by code_simp
  from t_reentrant [of "[''<li>'', ''</li>'']" "[Str ''x'']" "''<li>x</li>''" "''f''" "''<ul>''" "''</ul>''"]
  show ?thesis using inner by simp
qed

section \<open>Properties of the transformer\<close>

lemma sum_list_map_zero:
  "(\<And>x. x \<in> set xs \<Longrightarrow> f x = (0::nat)) \<Longrightarrow> sum_list (map f xs) = 0"
  by (induction xs) auto

lemma untagged_count_transformTTL:
  "untagged_count parent (transformTTL tagName parent n) = 0"
  by (induction tagName parent n rule: transformTTL.induct)
     (simp_all add: sum_list_map_zero comp_def)

lemma transformTTL_unchanged:
  "untagged_count parent n = 0 \<Longrightarrow> transformTTL tagName parent n = n"
  by (induction tagName parent n rule: transformTTL.induct)
     (auto intro: map_idI split: if_splits)

lemma transformTTL_Identifier:
  "(transformTTL tagName parent n = Identifier x) = (n = Identifier x)"
  by (cases "(tagName, parent, n)" rule: transformTTL.cases) auto

lemma is_TemplateLiteral_transformTTL:
  "is_TemplateLiteral (transformTTL tagName ''TaggedTemplateExpression'' n) = is_TemplateLiteral n"
  by (cases "(tagName, ''TaggedTemplateExpression'', n)" rule: transformTTL.cases) auto

text \<open>Taking the tag away from the result of the pass and from its argument gives the
  same tree: the pass adds tags and changes nothing else, at any depth.\<close>

lemma erase_tag_transformTTL:
  "erase_tag tagName (transformTTL tagName parent n) = erase_tag tagName n"
  by (induction tagName parent n rule: transformTTL.induct)
     (simp_all add: transformTTL_Identifier is_TemplateLiteral_transformTTL cong: map_cong)

text \<open>The pass adds one tagged template expression for each template literal that was
  not under one, and no other.\<close>

lemma tagged_count_transformTTL:
  "tagged_count (transformTTL tagName parent n) = tagged_count n + untagged_count parent n"
  by (induction tagName parent n rule: transformTTL.induct)
     (simp_all add: comp_def sum_list_addf cong: map_cong)

text \<open>
  C6. The tag-insertion pass turns a template literal whose parent is not a tagged template
  expression into a tagged template expression with the identifier \<open>tagName\<close> as its tag
  and the literal as its quasi. A template literal that is the quasi of a tagged template
  expression stays the quasi of that expression, with the same text fragments. In both
  cases the pass goes on into the interpolated expressions. This holds at every depth of
  the tree, below statements and inside functions: after the pass no template literal is
  left under a parent that is not a tagged template expression; taking the tag
  \<open>tagName\<close> away from the result gives what taking it away from the source gives, so
  that nothing but tags is added and no node is lost or altered; the pass adds exactly one
  tagged template expression for each literal that was not under one, so that a literal
  already tagged gets no second tag; and a tree with no such literal is returned as it
  was. For the program \<open>template: `d`;\<close> the result is \<open>template: t`d`;\<close>, and a literal
  returned by a function inside an interpolation of the labeled literal is tagged as well.
\<close>

theorem transformTTL_tags_untagged_literals:
  "(parent \<noteq> ''TaggedTemplateExpression'' \<longrightarrow>
      transformTTL tagName parent (TemplateLiteral quasis exprs) =
        TaggedTemplateExpression (Identifier tagName)
          (TemplateLiteral quasis (map (transformTTL tagName ''TemplateLiteral'') exprs)))
   \<and> transformTTL tagName parent (TaggedTemplateExpression tag (TemplateLiteral quasis exprs)) =
        TaggedTemplateExpression (transformTTL tagName ''TaggedTemplateExpression'' tag)
          (TemplateLiteral quasis (map (transformTTL tagName ''TemplateLiteral'') exprs))
   \<and> untagged_count parent (transformTTL tagName parent n) = 0
   \<and> (untagged_count parent n = 0 \<longrightarrow> transformTTL tagName parent n = n)
   \<and> erase_tag tagName (transformTTL tagName parent n) = erase_tag tagName n
   \<and> tagged_count (transformTTL tagName parent n) = tagged_count n + untagged_count parent n
   \<and> transformTTL TAG_NAME ''File''
        (Other ''Program''
           [LabeledStatement ''template'' (ExpressionStatement (TemplateLiteral [''d''] []))]) =
       Other ''Program''
         [LabeledStatement ''template''
            (ExpressionStatement
               (TaggedTemplateExpression (Identifier ''t'') (TemplateLiteral [''d''] [])))]
   \<and> transformTTL TAG_NAME ''File''
        (Other ''Program''
           [LabeledStatement ''template''
              (ExpressionStatement
                 (TemplateLiteral [''<header>'', ''</header>'']
                    [Other ''ArrowFunctionExpression''
                       [Other ''BlockStatement''
                          [ReturnStatement
                             (Some (TemplateLiteral [''<h1>'', ''</h1>''] [Identifier ''name'']))]]]))]) =
       Other ''Program''
         [LabeledStatement ''template''
            (ExpressionStatement
               (TaggedTemplateExpression (Identifier ''t'')
                  (TemplateLiteral [''<header>'', ''</header>'']
                     [Other ''ArrowFunctionExpression''
                        [Other ''BlockStatement''
                           [ReturnStatement
                              (Some (TaggedTemplateExpression (Identifier ''t'')
                                       (TemplateLiteral [''<h1>'', ''</h1>'']
                                          [Identifier ''name''])))]]])))]"
  by (simp add: untagged_count_transformTTL transformTTL_unchanged erase_tag_transformTTL
        tagged_count_transformTTL TAG_NAME_def)

text \<open>
  C6 at the expression statement \<open>`a${`c`}b`;\<close>, whose two literals are both tagged with
  \<open>t\<close>; at the statement \<open>html`x`;\<close>, which is left as it is; and at the program
  \<open>template: `d`; html`x`;\<close>, where the literal below the labeled statement is tagged,
  one tagged template expression is added to the one there was, and taking the tag \<open>t\<close>
  away gives the program back.
\<close>

theorem transformTTL_tags_untagged_literals_witness:
  "''ExpressionStatement'' \<noteq> ''TaggedTemplateExpression''
   \<and> transformTTL ''t'' ''ExpressionStatement'' (TemplateLiteral [''a'', ''b''] [TemplateLiteral [''c''] []]) =
       TaggedTemplateExpression (Identifier ''t'')
         (TemplateLiteral [''a'', ''b'']
            [TaggedTemplateExpression (Identifier ''t'') (TemplateLiteral [''c''] [])])
   \<and> untagged_count ''Program''
        (ExpressionStatement (TaggedTemplateExpression (Identifier ''html'') (TemplateLiteral [''x''] []))) = 0
   \<and> transformTTL ''t'' ''Program''
        (ExpressionStatement (TaggedTemplateExpression (Identifier ''html'') (TemplateLiteral [''x''] []))) =
       ExpressionStatement (TaggedTemplateExpression (Identifier ''html'') (TemplateLiteral [''x''] []))
   \<and> untagged_count ''File''
        (transformTTL ''t'' ''File''
           (Other ''Program''
              [LabeledStatement ''template'' (ExpressionStatement (TemplateLiteral [''d''] [])),
               ExpressionStatement
                 (TaggedTemplateExpression (Identifier ''html'') (TemplateLiteral [''x''] []))])) = 0
   \<and> erase_tag ''t''
        (transformTTL ''t'' ''File''
           (Other ''Program''
              [LabeledStatement ''template'' (ExpressionStatement (TemplateLiteral [''d''] [])),
               ExpressionStatement
                 (TaggedTemplateExpression (Identifier ''html'') (TemplateLiteral [''x''] []))])) =
       Other ''Program''
         [LabeledStatement ''template'' (ExpressionStatement (TemplateLiteral [''d''] [])),
          ExpressionStatement
            (TaggedTemplateExpression (Identifier ''html'') (TemplateLiteral [''x''] []))]
   \<and> tagged_count
        (transformTTL ''t'' ''File''
           (Other ''Program''
              [LabeledStatement ''template'' (ExpressionStatement (TemplateLiteral [''d''] [])),
               ExpressionStatement
                 (TaggedTemplateExpression (Identifier ''html'') (TemplateLiteral [''x''] []))])) = 2"
  using transformTTL_tags_untagged_literals
          [of "''ExpressionStatement''" "''t''" "[''a'', ''b'']" "[TemplateLiteral [''c''] []]"]
        transformTTL_tags_untagged_literals
          [of "''Program''" "''t''" _ _ _
              "ExpressionStatement (TaggedTemplateExpression (Identifier ''html'') (TemplateLiteral [''x''] []))"]
        transformTTL_tags_untagged_literals
          [of "''File''" "''t''" _ _ _
              "Other ''Program''
                 [LabeledStatement ''template'' (ExpressionStatement (TemplateLiteral [''d''] [])),
                  ExpressionStatement
                    (TaggedTemplateExpression (Identifier ''html'') (TemplateLiteral [''x''] []))]"]
  by (simp add: TAG_NAME_def)

text \<open>The single traversal with both visitors gives the tree obtained by inserting the
  tags and then rewriting the label.\<close>

lemma transformTTL_parent:
  "(p = ''TaggedTemplateExpression'') = (q = ''TaggedTemplateExpression'') \<Longrightarrow>
   transformTTL tagName p n = transformTTL tagName q n"
  by (cases "(tagName, p, n)" rule: transformTTL.cases) auto

lemma traverse_eq:
  "traverse tagName labelName parent n =
     transformLabelToReturn labelName (transformTTL tagName parent n)"
proof (induction tagName labelName parent n rule: traverse.induct)
  case (2 tagName labelName parent l body)
  show ?case
  proof (cases "l = labelName")
    case False
    with 2 show ?thesis by simp
  next
    case True
    show ?thesis
    proof (cases body)
      case (ExpressionStatement e)
      have "transformTTL tagName ''ReturnStatement'' e = transformTTL tagName ''ExpressionStatement'' e"
        by (rule transformTTL_parent) simp
      with 2(1)[OF True ExpressionStatement] True ExpressionStatement show ?thesis by simp
    qed (cases "(tagName, ''LabeledStatement'', body)" rule: transformTTL.cases; simp add: True)+
  qed
qed (simp_all cong: map_cong)

lemma transformLabelToReturn_unchanged:
  "labeled_count labelName n = 0 \<Longrightarrow> transformLabelToReturn labelName n = n"
  by (induction labelName n rule: transformLabelToReturn.induct)
     (auto intro: map_idI split: if_splits)

lemma labeled_count_transformTTL:
  "labeled_count labelName (transformTTL tagName parent n) = labeled_count labelName n"
  by (induction tagName parent n rule: transformTTL.induct)
     (simp_all add: comp_def cong: map_cong)

lemma return_count_transformTTL:
  "return_count (transformTTL tagName parent n) = return_count n"
  by (induction tagName parent n rule: transformTTL.induct)
     (simp_all add: comp_def cong: map_cong)

lemma own_return_count_transformTTL:
  "own_return_count (transformTTL tagName parent n) = own_return_count n"
  by (induction tagName parent n rule: transformTTL.induct)
     (simp_all add: comp_def cong: map_cong)

text \<open>
  C7, as the code has it. Compiling a source with no statement labeled \<open>template\<close> does
  not fail for that: the code has no error for it. When the file is read and parsed, the
  body of the function to compile is the program with its template literals tagged and
  nothing else changed; no statement is rewritten into a return, so the body has the return
  statements of the source and no other, in its own code and inside nested functions.
  \<open>fromFile\<close> returns the compiled function with that body, unless the engine rejects the
  body as the code of a function, and then the error is the \<open>SyntaxError\<close> of
  \<open>new Function\<close>.
\<close>

theorem fromFile_without_label:
  "fs templatePath = Some (Inr ast) \<Longrightarrow> labeled_count ''template'' ast = 0 \<Longrightarrow>
   fromFile fs isFunctionBody templatePath =
     (if isFunctionBody
           (Other ''WithStatement'' [Identifier ''context'', transformTTL ''t'' ''File'' ast])
      then Inr (Function ''context''
                  (Other ''WithStatement'' [Identifier ''context'', transformTTL ''t'' ''File'' ast]))
      else Inl SyntaxError)
   \<and> erase_tag ''t'' (transformTTL ''t'' ''File'' ast) = erase_tag ''t'' ast
   \<and> own_return_count (transformTTL ''t'' ''File'' ast) = own_return_count ast
   \<and> return_count (transformTTL ''t'' ''File'' ast) = return_count ast"
  by (simp add: fromFile_def transformSync_def TAG_NAME_def ARGUMENT_NAME_def traverse_eq
        transformLabelToReturn_unchanged labeled_count_transformTTL return_count_transformTTL
        own_return_count_transformTTL erase_tag_transformTTL)

text \<open>
  C7 at the file \<open>template.js\<close> whose program is the single statement \<open>`hi`;\<close>, which
  compiles to a function whose body has no return statement, and at the file \<open>module.js\<close>
  whose program is an import declaration followed by that statement, for which
  \<open>new Function\<close> throws.
\<close>

theorem fromFile_without_label_witness:
  "fromFile
     (map_of [(''template.js'',
               Inr (Other ''Program'' [ExpressionStatement (TemplateLiteral [''hi''] [])]))])
     rejects_module_declarations ''template.js'' =
   Inr (Function ''context''
          (Other ''WithStatement''
             [Identifier ''context'',
              transformTTL ''t'' ''File''
                (Other ''Program'' [ExpressionStatement (TemplateLiteral [''hi''] [])])]))
   \<and> own_return_count
        (transformTTL ''t'' ''File''
           (Other ''Program'' [ExpressionStatement (TemplateLiteral [''hi''] [])])) = 0
   \<and> fromFile
        (map_of [(''module.js'',
                  Inr (Other ''Program''
                         [Other ''ImportDeclaration'' [Identifier ''x''],
                          ExpressionStatement (TemplateLiteral [''hi''] [])]))])
        rejects_module_declarations ''module.js'' =
      Inl SyntaxError"
  using fromFile_without_label
          [of "map_of [(''template.js'',
                        Inr (Other ''Program'' [ExpressionStatement (TemplateLiteral [''hi''] [])]))]"
              "''template.js''"
              "Other ''Program'' [ExpressionStatement (TemplateLiteral [''hi''] [])]"
              rejects_module_declarations]
        fromFile_without_label
          [of "map_of [(''module.js'',
                        Inr (Other ''Program''
                               [Other ''ImportDeclaration'' [Identifier ''x''],
                                ExpressionStatement (TemplateLiteral [''hi''] [])]))]"
              "''module.js''"
              "Other ''Program''
                 [Other ''ImportDeclaration'' [Identifier ''x''],
                  ExpressionStatement (TemplateLiteral [''hi''] [])]"
              rejects_module_declarations]
  by (simp add: rejects_module_declarations_def module_declarations_def)

text \<open>
  C7 as stated fails: the program \<open>`hi`;\<close> has no labeled statement, and compiling it
  gives no error but a function, whose body \<open>with (context) { t`hi`; }\<close> has no return
  statement.
\<close>

theorem fromFile_without_label_no_error:
  "labeled_count ''template''
     (Other ''Program'' [ExpressionStatement (TemplateLiteral [''hi''] [])]) = 0
   \<and> fromFile
        (map_of [(''template.js'',
                  Inr (Other ''Program'' [ExpressionStatement (TemplateLiteral [''hi''] [])]))])
        rejects_module_declarations ''template.js'' =
      Inr (Function ''context''
             (Other ''WithStatement''
                [Identifier ''context'',
                 Other ''Program''
                   [ExpressionStatement
                      (TaggedTemplateExpression (Identifier ''t'') (TemplateLiteral [''hi''] []))]]))
   \<and> own_return_count
        (Other ''WithStatement''
           [Identifier ''context'',
            Other ''Program''
              [ExpressionStatement
                 (TaggedTemplateExpression (Identifier ''t'') (TemplateLiteral [''hi''] []))]]) = 0"
  by (simp add: fromFile_def transformSync_def TAG_NAME_def ARGUMENT_NAME_def
        rejects_module_declarations_def module_declarations_def function_types_def)

end
